theory Spec2Isabelle
  imports Complex_Main "HOL-Library.Multiset"
begin

section \<open>Data model\<close>

text \<open>
  The script \<^verbatim>\<open>scripts/gen_grasp_refactor_record.py\<close> works on numpy arrays of floats.
  Finite floats are modelled as exact reals (rounding is not modelled); the non-finite
  results that numpy's true division produces for a zero divisor are modelled by
  \<open>npfloat\<close>. Exceptions raised by Python or numpy are values of \<open>py_error\<close>.
\<close>

datatype py_error =
  IndexError | KeyError | ValueError | TypeError | NameError | AttributeError

datatype npfloat = Finite real | PosInf | NegInf | NaN

type_synonym vec3 = "real \<times> real \<times> real"

text \<open>A 3x3 matrix, given by its rows.\<close>

type_synonym mat3 = "vec3 \<times> vec3 \<times> vec3"

text \<open>The fields of a graspnetAPI \<^verbatim>\<open>Grasp\<close> that the script reads.\<close>

record grasp =
  score :: real
  width :: real
  height :: real
  depth :: real
  rotation_matrix :: mat3
  translation :: vec3

text \<open>An Open3D oriented bounding box: centre, rotation, extent.\<close>

record obb =
  center :: vec3
  R :: mat3
  extent :: vec3

section \<open>Numpy operations used by the script\<close>

text \<open>\<^verbatim>\<open>x / d\<close> on float arrays: a zero divisor gives inf, -inf or nan (with a warning), never
  an exception.\<close>

definition np_divide :: "real \<Rightarrow> real \<Rightarrow> npfloat" where
  "np_divide x d =
     (if d = 0 then (if 0 < x then PosInf else if x < 0 then NegInf else NaN)
      else Finite (x / d))"

text \<open>\<^verbatim>\<open>a.max()\<close> and \<^verbatim>\<open>a.min()\<close>: ValueError on an empty array.\<close>

fun np_max :: "real list \<Rightarrow> py_error + real" where
  "np_max [] = Inl ValueError"
| "np_max (x # xs) = Inr (fold max xs x)"

fun np_min :: "real list \<Rightarrow> py_error + real" where
  "np_min [] = Inl ValueError"
| "np_min (x # xs) = Inr (fold min xs x)"

text \<open>\<^verbatim>\<open>a[idx]\<close> with a list of non-negative indices: IndexError when one is out of range.\<close>

fun np_take :: "'a list \<Rightarrow> nat list \<Rightarrow> py_error + 'a list" where
  "np_take a [] = Inr []"
| "np_take a (i # is) =
     (if i < length a
      then (case np_take a is of Inl e \<Rightarrow> Inl e | Inr vs \<Rightarrow> Inr (a ! i # vs))
      else Inl IndexError)"

text \<open>\<^verbatim>\<open>np.median\<close> of a non-empty array: the middle element of the sorted values, or the
  mean of the two middle ones.\<close>

definition np_median :: "real list \<Rightarrow> real" where
  "np_median xs =
     (let s = sort xs; n = length xs
      in if odd n then s ! (n div 2) else (s ! (n div 2 - 1) + s ! (n div 2)) / 2)"

section \<open>Bounding boxes\<close>

text \<open>\<^verbatim>\<open>get_bbox_from_grasp\<close> (lines 280-288).\<close>

definition get_bbox_from_grasp :: "grasp \<Rightarrow> obb" where
  "get_bbox_from_grasp gg =
     \<lparr>center = translation gg, R = rotation_matrix gg,
      extent = (depth gg, width gg, height gg)\<rparr>"

text \<open>
  \<^verbatim>\<open>box.get_point_indices_within_bounding_box(points)\<close> is Open3D's: the indices, in
  increasing order, of the points inside the box. The membership test is a parameter
  \<open>inside\<close> of the model.
\<close>

definition get_point_indices_within_bounding_box ::
  "(obb \<Rightarrow> vec3 \<Rightarrow> bool) \<Rightarrow> obb \<Rightarrow> vec3 list \<Rightarrow> nat list" where
  "get_point_indices_within_bounding_box inside box points =
     filter (\<lambda>i. inside box (points ! i)) [0..<length points]"

text \<open>
  The geometric membership test, used where a concrete one is needed: the point, in
  the box's own frame, lies within half the extent along each axis (boundary
  included).
\<close>

fun point_within_box :: "obb \<Rightarrow> vec3 \<Rightarrow> bool" where
  "point_within_box box (px, py, pz) =
     (case (center box, R box, extent box) of
        ((cx, cy, cz), ((r11, r12, r13), (r21, r22, r23), (r31, r32, r33)), (ex, ey, ez)) \<Rightarrow>
          (let dx = px - cx; dy = py - cy; dz = pz - cz
           in \<bar>r11 * dx + r21 * dy + r31 * dz\<bar> \<le> ex / 2
            \<and> \<bar>r12 * dx + r22 * dy + r32 * dz\<bar> \<le> ey / 2
            \<and> \<bar>r13 * dx + r23 * dy + r33 * dz\<bar> \<le> ez / 2))"

section \<open>Scoring the candidates (lines 781-802, and 353-374 of main)\<close>

text \<open>The semantic score of one candidate: the median relevancy of the LERF points
  inside its box, or 0.0 when there are none.\<close>

definition lerf_score_of ::
  "(obb \<Rightarrow> vec3 \<Rightarrow> bool) \<Rightarrow> vec3 list \<Rightarrow> real list \<Rightarrow> grasp \<Rightarrow> py_error + real" where
  "lerf_score_of inside lerf_points_o3d lerf_relevancy g =
     (let box = get_bbox_from_grasp g;
          pts = get_point_indices_within_bounding_box inside box lerf_points_o3d
      in if length pts = 0 then Inr 0
         else (case np_take lerf_relevancy pts of
                 Inl e \<Rightarrow> Inl e
               | Inr vs \<Rightarrow> Inr (np_median vs)))"

text \<open>The geometric score of one candidate: the detector's score, replaced by 0.0 when
  no point of the DINO cloud lies inside its box.\<close>

definition geom_score_of :: "(obb \<Rightarrow> vec3 \<Rightarrow> bool) \<Rightarrow> vec3 list \<Rightarrow> grasp \<Rightarrow> real" where
  "geom_score_of inside dino_pcd g =
     (let box = get_bbox_from_grasp g;
          pts1 = get_point_indices_within_bounding_box inside box dino_pcd;
          score1 = score g
      in if length pts1 = 0 then 0 else score1)"

text \<open>The loop over the candidates, appending to both score lists.\<close>

fun score_loop ::
  "(obb \<Rightarrow> vec3 \<Rightarrow> bool) \<Rightarrow> vec3 list \<Rightarrow> real list \<Rightarrow> vec3 list \<Rightarrow> grasp list
     \<Rightarrow> real list \<times> real list \<Rightarrow> py_error + (real list \<times> real list)" where
  "score_loop inside lp lr dp [] acc = Inr acc"
| "score_loop inside lp lr dp (g # gs) (lerf_scores, geom_scores) =
     (case lerf_score_of inside lp lr g of
        Inl e \<Rightarrow> Inl e
      | Inr s \<Rightarrow>
          score_loop inside lp lr dp gs
            (lerf_scores @ [s], geom_scores @ [geom_score_of inside dp g]))"

text \<open>\<^verbatim>\<open>lerf_scores /= lerf_relevancy.max()\<close>: the divisor is the maximum of the whole
  relevancy field.\<close>

definition normalize_lerf_scores :: "real list \<Rightarrow> real list \<Rightarrow> py_error + npfloat list" where
  "normalize_lerf_scores lerf_scores lerf_relevancy =
     (case np_max lerf_relevancy of
        Inl e \<Rightarrow> Inl e
      | Inr m \<Rightarrow> Inr (map (\<lambda>s. np_divide s m) lerf_scores))"

text \<open>The scoring part of the handler: the normalised semantic scores and the geometric
  scores.\<close>

definition gen_grasp_scores ::
  "(obb \<Rightarrow> vec3 \<Rightarrow> bool) \<Rightarrow> vec3 list \<Rightarrow> real list \<Rightarrow> vec3 list \<Rightarrow> grasp list
     \<Rightarrow> py_error + (npfloat list \<times> real list)" where
  "gen_grasp_scores inside lerf_points_o3d lerf_relevancy dino_pcd grasps =
     (case score_loop inside lerf_points_o3d lerf_relevancy dino_pcd grasps ([], []) of
        Inl e \<Rightarrow> Inl e
      | Inr (lerf_scores, geom_scores) \<Rightarrow>
          (case normalize_lerf_scores lerf_scores lerf_relevancy of
             Inl e \<Rightarrow> Inl e
           | Inr ls \<Rightarrow> Inr (ls, geom_scores)))"

section \<open>Example data\<close>

text \<open>A candidate with an axis-aligned box of extent 1 around \<open>c\<close> and detector score \<open>s\<close>.\<close>

definition unit_grasp :: "real \<Rightarrow> vec3 \<Rightarrow> grasp" where
  "unit_grasp s c =
     \<lparr>score = s, width = 1, height = 1, depth = 1,
      rotation_matrix = ((1, 0, 0), (0, 1, 0), (0, 0, 1)), translation = c\<rparr>"

section \<open>Fusing, selecting and rescaling the scores (lines 814-852, and 376-414 of main)\<close>

text \<open>
  Elementwise arithmetic on one-dimensional arrays. numpy broadcasts an array of length
  one against the other operand and raises ValueError for any other length mismatch.
\<close>

definition np_scale :: "real \<Rightarrow> real list \<Rightarrow> real list" where
  "np_scale w a = map (\<lambda>x. w * x) a"

definition np_add :: "real list \<Rightarrow> real list \<Rightarrow> py_error + real list" where
  "np_add a b =
     (if length a = length b then Inr (map2 (+) a b)
      else if length a = 1 then Inr (map (\<lambda>y. hd a + y) b)
      else if length b = 1 then Inr (map (\<lambda>x. x + hd b) a)
      else Inl ValueError)"

text \<open>
  The fused scores. \<^verbatim>\<open>lerf_scores\<close> starts as the empty list and is only ever replaced
  by an array, so the test \<^verbatim>\<open>lerf_scores is None\<close> never holds. The two arrays are
  those left by the scoring handler, taken here with finite entries.
\<close>

definition fuse_scores :: "real \<Rightarrow> real list \<Rightarrow> real list \<Rightarrow> py_error + real list" where
  "fuse_scores lerf_weight lerf_scores geom_scores =
     (let geom_weight = 1 - lerf_weight
      in if length lerf_scores = 0 then Inr geom_scores
         else if lerf_weight = 1 then Inr lerf_scores
         else np_add (np_scale lerf_weight lerf_scores) (np_scale geom_weight geom_scores))"

text \<open>
  \<^verbatim>\<open>np.argsort(scores)[::-1]\<close> (line 882): the indices by increasing score, reversed.
  Among equal scores numpy's order is not specified; the model sorts stably.
\<close>

definition argsort :: "real list \<Rightarrow> nat list" where
  "argsort a = sort_key (\<lambda>i. a ! i) [0..<length a]"

definition argsort_desc :: "real list \<Rightarrow> nat list" where
  "argsort_desc a = rev (argsort a)"

text \<open>
  \<^verbatim>\<open>np.quantile(a, q)\<close> with numpy's default linear interpolation: position
  \<open>q (n - 1)\<close> in the sorted array, interpolated between its two neighbours. The handler
  returns before this call when the array is empty.
\<close>

definition np_quantile :: "real list \<Rightarrow> real \<Rightarrow> py_error + real" where
  "np_quantile a q =
     (if a = [] \<or> q < 0 \<or> 1 < q then Inl ValueError
      else
        (let s = sort a; n = length a;
             pos = q * real (n - 1);
             j = nat \<lfloor>pos\<rfloor>;
             g = pos - real j
         in Inr (s ! j + g * (s ! (min (j + 1) (n - 1)) - s ! j))))"

text \<open>
  graspnetAPI's \<^verbatim>\<open>GraspGroup.sort_by_score()\<close>: the group reordered by decreasing
  \<^verbatim>\<open>score\<close> field of its grasps (an argsort of that column, reversed).
\<close>

definition sort_by_score :: "grasp list \<Rightarrow> grasp list" where
  "sort_by_score gg = rev (sort_key score gg)"

text \<open>
  Lines 829-834: the candidates above the threshold and their indices. Reading
  \<^verbatim>\<open>scores[ind]\<close> raises IndexError when the score array is shorter than the candidate
  list; \<^verbatim>\<open>np.stack\<close> raises ValueError on an empty list.
\<close>

definition select_grasps ::
  "grasp list \<Rightarrow> real list \<Rightarrow> real \<Rightarrow> py_error + (nat list \<times> grasp list)" where
  "select_grasps grasps scores scores_threshold =
     (if length scores < length grasps then Inl IndexError
      else
        (let inds_selected = filter (\<lambda>ind. scores_threshold < scores ! ind) [0..<length grasps];
             grasps_selected = map (\<lambda>ind. grasps ! ind) inds_selected
         in if grasps_selected = [] then Inl ValueError
            else Inr (inds_selected, sort_by_score grasps_selected)))"

text \<open>Lines 827-834: the threshold is the quantile of the fused scores.\<close>

definition select_by_quantile ::
  "grasp list \<Rightarrow> real list \<Rightarrow> real \<Rightarrow> py_error + (nat list \<times> grasp list)" where
  "select_by_quantile grasps scores q =
     (case np_quantile scores q of
        Inl e \<Rightarrow> Inl e
      | Inr scores_threshold \<Rightarrow> select_grasps grasps scores scores_threshold)"

text \<open>
  Lines 846-847: \<^verbatim>\<open>scores -= scores[inds_selected].min()\<close> and then
  \<^verbatim>\<open>scores /= scores[inds_selected].max()\<close>, the maximum being read after the
  subtraction. Both act on the whole score array.
\<close>

definition rescale_scores :: "real list \<Rightarrow> nat list \<Rightarrow> py_error + npfloat list" where
  "rescale_scores scores inds_selected =
     (case np_take scores inds_selected of
        Inl e \<Rightarrow> Inl e
      | Inr sel \<Rightarrow>
          (case np_min sel of
             Inl e \<Rightarrow> Inl e
           | Inr mn \<Rightarrow>
               (let scores1 = map (\<lambda>s. s - mn) scores
                in case np_take scores1 inds_selected of
                     Inl e \<Rightarrow> Inl e
                   | Inr sel1 \<Rightarrow>
                       (case np_max sel1 of
                          Inl e \<Rightarrow> Inl e
                        | Inr mx \<Rightarrow> Inr (map (\<lambda>s. np_divide s mx) scores1)))))"

text \<open>
  The handler's result: the rescaled scores (\<^verbatim>\<open>overall_scores\<close>) and the dictionary
  \<^verbatim>\<open>grasps_dict\<close>, which pairs the selected indices, in index order, with the selected
  candidates, in sorted order (\<^verbatim>\<open>zip(inds_selected, grasps_selected)\<close>).
\<close>

record scores_state =
  overall_scores :: "npfloat list"
  grasps_dict :: "(nat \<times> grasp) list"

text \<open>
  The handler; \<open>None\<close> is its early return on an empty score array. At weight 1.0 the
  array \<^verbatim>\<open>scores\<close> is \<^verbatim>\<open>lerf_scores\<close> itself, so the rescaling in place also changes
  the semantic scores kept for the next run; the model covers one run.
\<close>

definition update_overall_scores ::
  "real \<Rightarrow> real \<Rightarrow> grasp list \<Rightarrow> real list \<Rightarrow> real list \<Rightarrow> py_error + scores_state option" where
  "update_overall_scores lerf_weight threshold grasps lerf_scores geom_scores =
     (case fuse_scores lerf_weight lerf_scores geom_scores of
        Inl e \<Rightarrow> Inl e
      | Inr scores \<Rightarrow>
          if length scores = 0 then Inr None
          else
            (case select_by_quantile grasps scores threshold of
               Inl e \<Rightarrow> Inl e
             | Inr (inds_selected, grasps_selected) \<Rightarrow>
                 (case rescale_scores scores inds_selected of
                    Inl e \<Rightarrow> Inl e
                  | Inr scores' \<Rightarrow>
                      Inr (Some \<lparr>overall_scores = scores',
                                 grasps_dict = zip inds_selected grasps_selected\<rparr>))))"

section \<open>Trajectories and poses\<close>

text \<open>
  A joint configuration is a row of a numpy array, a trajectory the array of its rows
  (all of one length). An autolab_core \<^verbatim>\<open>RigidTransform\<close> is a rotation and a
  translation.
\<close>

type_synonym config = "real list"

type_synonym trajectory = "config list"

record rigid_transform =
  rt_rotation :: mat3
  rt_translation :: vec3

text \<open>Python's \<^verbatim>\<open>int(x)\<close> on a float truncates towards zero.\<close>

definition py_int :: "real \<Rightarrow> int" where
  "py_int x = (if 0 \<le> x then \<lfloor>x\<rfloor> else \<lceil>x\<rceil>)"

text \<open>Indexing with one integer: a negative index counts from the end, an index out of
  range raises IndexError.\<close>

definition py_index :: "'a list \<Rightarrow> int \<Rightarrow> py_error + 'a" where
  "py_index xs i =
     (if 0 \<le> i \<and> i < int (length xs) then Inr (xs ! nat i)
      else if i < 0 \<and> - int (length xs) \<le> i then Inr (xs ! nat (int (length xs) + i))
      else Inl IndexError)"

section \<open>Playing the trajectory (lines 1186-1191)\<close>

text \<open>
  The slider's handler: nothing happens while there is no trajectory; otherwise the
  configuration at index \<^verbatim>\<open>int(value * (len(traj) - 1))\<close> is sent to the robot model.
  The product is taken in double precision: the rounded product of two doubles is the
  parameter \<open>float_mul\<close> of the model, and equals the exact product wherever that is
  itself a double. The result is the configuration passed to \<^verbatim>\<open>goto_joints\<close>, if any.
\<close>

definition gen_traj_slider_on_update ::
  "(real \<Rightarrow> real \<Rightarrow> real) \<Rightarrow> trajectory option \<Rightarrow> real \<Rightarrow> py_error + config option" where
  "gen_traj_slider_on_update float_mul traj slider_value =
     (case traj of
        None \<Rightarrow> Inr None
      | Some tr \<Rightarrow>
          (case py_index tr
                  (py_int (float_mul slider_value (real_of_int (int (length tr) - 1)))) of
             Inl e \<Rightarrow> Inl e
           | Inr curr_joint \<Rightarrow> Inr (Some curr_joint)))"

section \<open>Choosing the best recorded result (lines 1073-1081)\<close>








section \<open>Rigid transforms\<close>

definition mat_vec :: "mat3 \<Rightarrow> vec3 \<Rightarrow> vec3" where
  "mat_vec m v =
     (case (m, v) of
        (((a11, a12, a13), (a21, a22, a23), (a31, a32, a33)), (x, y, z)) \<Rightarrow>
          (a11 * x + a12 * y + a13 * z,
           a21 * x + a22 * y + a23 * z,
           a31 * x + a32 * y + a33 * z))"

definition mat_mul :: "mat3 \<Rightarrow> mat3 \<Rightarrow> mat3" where
  "mat_mul a b =
     (case (a, b) of
        ((r1, r2, r3), ((b11, b12, b13), (b21, b22, b23), (b31, b32, b33))) \<Rightarrow>
          (let row = (\<lambda>(x, y, z).
                 (x * b11 + y * b21 + z * b31,
                  x * b12 + y * b22 + z * b32,
                  x * b13 + y * b23 + z * b33))
           in (row r1, row r2, row r3)))"

definition vec_add :: "vec3 \<Rightarrow> vec3 \<Rightarrow> vec3" where
  "vec_add u v = (case (u, v) of ((a, b, c), (x, y, z)) \<Rightarrow> (a + x, b + y, c + z))"

definition identity_rotation :: mat3 where
  "identity_rotation = ((1, 0, 0), (0, 1, 0), (0, 0, 1))"

definition x_axis_rotation :: "real \<Rightarrow> mat3" where
  "x_axis_rotation theta = ((1, 0, 0), (0, cos theta, - sin theta), (0, sin theta, cos theta))"

definition y_axis_rotation :: "real \<Rightarrow> mat3" where
  "y_axis_rotation theta = ((cos theta, 0, sin theta), (0, 1, 0), (- sin theta, 0, cos theta))"

definition z_axis_rotation :: "real \<Rightarrow> mat3" where
  "z_axis_rotation theta = ((cos theta, - sin theta, 0), (sin theta, cos theta, 0), (0, 0, 1))"

text \<open>\<^verbatim>\<open>RigidTransform.__mul__\<close>: composition. The frame names of the source always match
  and are left out.\<close>

definition rt_mul :: "rigid_transform \<Rightarrow> rigid_transform \<Rightarrow> rigid_transform" where
  "rt_mul a b =
     \<lparr>rt_rotation = mat_mul (rt_rotation a) (rt_rotation b),
      rt_translation = vec_add (mat_vec (rt_rotation a) (rt_translation b)) (rt_translation a)\<rparr>"

definition pure_translation :: "vec3 \<Rightarrow> rigid_transform" where
  "pure_translation t = \<lparr>rt_rotation = identity_rotation, rt_translation = t\<rparr>"

definition pure_rotation :: "mat3 \<Rightarrow> rigid_transform" where
  "pure_rotation r = \<lparr>rt_rotation = r, rt_translation = (0, 0, 0)\<rparr>"

text \<open>\<^verbatim>\<open>pose.matrix[:, 2][2]\<close>: the world z-component of the pose's third axis, the
  approach axis of the end effector.\<close>

definition approach_z :: "mat3 \<Rightarrow> real" where
  "approach_z m = (case m of (r1, r2, (a31, a32, a33)) \<Rightarrow> a33)"

section \<open>The scene handles of a selected candidate (\<^verbatim>\<open>add_grasps\<close>, lines 224-277)\<close>

text \<open>
  \<^verbatim>\<open>grasps_dict[ind]\<close> holds the handles made by \<^verbatim>\<open>add_grasps\<close> for the candidate
  stored under \<open>ind\<close>. The first handle carries the candidate's pose, the last one the
  pose of the end effector in the candidate's frame. Handles store rotations as
  quaternions; reading one back as a matrix is taken to give the rotation it was made
  from.
\<close>

definition robot_frame_R :: mat3 where
  "robot_frame_R = mat_mul (y_axis_rotation (pi / 2)) (z_axis_rotation (pi / 2))"

definition grasp2world_pose :: "grasp \<Rightarrow> rigid_transform" where
  "grasp2world_pose g = \<lparr>rt_rotation = rotation_matrix g, rt_translation = translation g\<rparr>"

definition ur52grasp_pose :: "grasp \<Rightarrow> rigid_transform" where
  "ur52grasp_pose g =
     \<lparr>rt_rotation = robot_frame_R, rt_translation = (depth g - 15 / 1000, 0, 0)\<rparr>"

section \<open>The motion planner and the trace of a run\<close>

text \<open>
  A pose handed to the planner: a rigid transform, or the transform left when the pose
  is re-centred on no point at all (see \<open>recentre\<close>). In the second case the first two
  rows of its matrix hold nan; what stays finite is the third row of the rotation and
  the z-translation, which \<open>Nan_target\<close> carries.
\<close>

datatype target_pose = Target rigid_transform | Nan_target vec3 real

text \<open>\<^verbatim>\<open>pose.matrix[:, 2][2]\<close> and \<^verbatim>\<open>pose.translation\<close> of a target; a translation
  holding nan is \<open>None\<close>.\<close>

definition target_approach_z :: "target_pose \<Rightarrow> real" where
  "target_approach_z t =
     (case t of Target p \<Rightarrow> approach_z (rt_rotation p) | Nan_target (a31, a32, a33) z \<Rightarrow> a33)"


datatype primitive = Grasp_primitive | Pick_and_place | Twist | Pour

text \<open>The calls made to \<^verbatim>\<open>grasp_planner\<close>, with their arguments (the obstacle cloud, the
  same in every call, is left out).\<close>

datatype call =
    Create_traj_from_grasp target_pose
  | Create_traj_lift_up config rigid_transform real
  | Create_traj_twist config rigid_transform real
  | Create_traj_place config rigid_transform
  | Create_traj_pour config rigid_transform real

text \<open>
  What a run does besides computing its result, in order: the messages it prints
  (without the values formatted into them), the planner calls, each with the index of
  the candidate being tried, and the reset of the robot model to its home joints.
\<close>

datatype event = Print string | Plan nat call | Goto_home

text \<open>
  The planner \<^verbatim>\<open>UR5GraspPlanner\<close> is not part of the script. It is a parameter of the
  model: each method maps the trace so far (so that a reply may depend on earlier
  calls) and the arguments to the reply, a trajectory with a success flag and, for
  \<^verbatim>\<open>create_traj_from_grasp\<close>, the pose reached. Replies are arrays of configurations.
\<close>

record planner =
  create_traj_from_grasp :: "event list \<Rightarrow> target_pose \<Rightarrow> trajectory \<times> bool \<times> rigid_transform"
  create_traj_lift_up :: "event list \<Rightarrow> config \<Rightarrow> rigid_transform \<Rightarrow> real \<Rightarrow> trajectory \<times> bool"
  create_traj_twist :: "event list \<Rightarrow> config \<Rightarrow> rigid_transform \<Rightarrow> real \<Rightarrow> trajectory \<times> bool"
  create_traj_place :: "event list \<Rightarrow> config \<Rightarrow> rigid_transform \<Rightarrow> trajectory \<times> bool"
  create_traj_pour :: "event list \<Rightarrow> config \<Rightarrow> rigid_transform \<Rightarrow> real \<Rightarrow> trajectory \<times> bool"

text \<open>The local variables of the handler that live across the loops. \<^verbatim>\<open>grasp_pose\<close>
  and \<^verbatim>\<open>traj_grasp_ind\<close> are \<open>None\<close> until first assigned.\<close>

record synth_state =
  events :: "event list"
  succ_traj_list :: "(trajectory \<times> rigid_transform) list"
  grasp_pose :: "target_pose option"
  traj_grasp_ind :: "nat option"

text \<open>A run ends with a value or with an exception; the trace up to the exception is
  kept with it.\<close>

type_synonym 'a outcome = "(py_error \<times> event list) + 'a"

definition emit :: "event list \<Rightarrow> synth_state \<Rightarrow> synth_state" where
  "emit evs st = st\<lparr>events := events st @ evs\<rparr>"

text \<open>\<^verbatim>\<open>traj[-1, :]\<close>: the last row, IndexError on an array without rows.\<close>

definition last_row :: "trajectory \<Rightarrow> py_error + config" where
  "last_row tr = (if tr = [] then Inl IndexError else Inr (last tr))"

section \<open>Target poses (lines 912-962, 987-1010, 1019-1049)\<close>

definition num_rotations_test :: nat where
  "num_rotations_test = 1"

text \<open>Lines 912-934: the candidate's pose, the end effector in its frame, and rotation
  trial \<open>i\<close> about the x axis through the point 0.02 along z.\<close>

definition trial_pose :: "grasp \<Rightarrow> nat \<Rightarrow> rigid_transform" where
  "trial_pose g i =
     rt_mul (rt_mul (rt_mul (rt_mul (grasp2world_pose g) (ur52grasp_pose g))
       (pure_translation (0, 0, 2 / 100)))
       (pure_rotation (x_axis_rotation (real i * (2 * pi) / real num_rotations_test))))
       (pure_translation (0, 0, - (2 / 100)))"

text \<open>Lines 936-940: the fixed offsets of the grasp and pick-and-place primitives.\<close>

definition primitive_offset :: "primitive \<Rightarrow> rigid_transform \<Rightarrow> rigid_transform" where
  "primitive_offset prim p =
     (case rt_translation p of (x, y, z) \<Rightarrow>
        (let p1 = (if prim = Grasp_primitive
                   then p\<lparr>rt_translation := (x, y, z + 15 / 1000)\<rparr> else p)
         in if prim = Pick_and_place
            then p1\<lparr>rt_translation := (x - 2 / 100, y + 3 / 100, z - 15 / 1000)\<rparr> else p1))"

text \<open>Lines 987-997 and 1019-1035: the poses of the twist and pour primitives, with
  fixed rotations.\<close>

definition twist_pose :: "grasp \<Rightarrow> rigid_transform" where
  "twist_pose g =
     rt_mul \<lparr>rt_rotation = ((- 1, 0, 0), (0, 1, 0), (0, 0, - 1)),
             rt_translation = rt_translation (grasp2world_pose g)\<rparr>
       (pure_translation (rt_translation (ur52grasp_pose g)))"

definition pour_pose :: "grasp \<Rightarrow> rigid_transform" where
  "pour_pose g =
     (let p = rt_mul (rt_mul
                \<lparr>rt_rotation = ((1, 0, 0), (0, 0, 1), (0, - 1, 0)),
                 rt_translation = rt_translation (grasp2world_pose g)\<rparr>
                (pure_translation (rt_translation (ur52grasp_pose g))))
                (pure_translation (0, 0, 0))
      in case rt_translation p of (x, y, z) \<Rightarrow>
           p\<lparr>rt_translation := (x, y - 3 / 100, z - 25 / 1000)\<rparr>)"

text \<open>\<^verbatim>\<open>pts.mean(axis=0)\<close>: the mean of the points, nan (here \<open>None\<close>) when there are none.\<close>

definition points_mean :: "vec3 list \<Rightarrow> vec3 option" where
  "points_mean pts =
     (if pts = [] then None
      else Some (sum_list (map fst pts) / real (length pts),
                 sum_list (map (\<lambda>p. fst (snd p)) pts) / real (length pts),
                 sum_list (map (\<lambda>p. snd (snd p)) pts) / real (length pts)))"

text \<open>
  Lines 951-962: the pose is moved horizontally onto the mean of the LERF points that
  lie in the box of a default \<^verbatim>\<open>Grasp()\<close> (width, height and depth 0.02) placed at the
  pose, by multiplying it from the left with a pure translation. With no point in the
  box that translation is (nan, nan, 0), and the product of the two 4x4 matrices has
  nan in its first two rows.
\<close>

definition recentre :: "(obb \<Rightarrow> vec3 \<Rightarrow> bool) \<Rightarrow> vec3 list \<Rightarrow> rigid_transform \<Rightarrow> target_pose" where
  "recentre inside lerf_points_o3d p =
     (let box = \<lparr>center = rt_translation p, R = rt_rotation p,
                 extent = (2 / 100, 2 / 100, 2 / 100)\<rparr>;
          pts = map (\<lambda>i. lerf_points_o3d ! i)
                  (get_point_indices_within_bounding_box inside box lerf_points_o3d)
      in case points_mean pts of
           None \<Rightarrow>
             (case (rt_rotation p, rt_translation p) of
                ((r1, r2, r3), (tx, ty, tz)) \<Rightarrow> Nan_target r3 tz)
         | Some (cx, cy, cz) \<Rightarrow>
             (case rt_translation p of (tx, ty, tz) \<Rightarrow>
                Target (rt_mul (pure_translation (cx - tx, cy - ty, 0)) p)))"

section \<open>The search over candidates and rotation trials (lines 883-1064)\<close>

text \<open>
  One rotation trial of the grasp and pick-and-place primitives (the body of the loop at
  lines 895-984). The result says whether the loop over the trials is left
  (\<^verbatim>\<open>break\<close>). A pose whose approach axis points upward is skipped before anything
  else is done with it. The debugger stops of the source are not modelled.
\<close>

definition rotation_trial ::
  "planner \<Rightarrow> primitive \<Rightarrow> (obb \<Rightarrow> vec3 \<Rightarrow> bool) \<Rightarrow> vec3 list \<Rightarrow> grasp \<Rightarrow> nat \<Rightarrow> nat
     \<Rightarrow> synth_state \<Rightarrow> (bool \<times> synth_state) outcome" where
  "rotation_trial P prim inside lerf_points_o3d g ind i st =
     (let st1 = emit [Print ''Trying rotation''] st;
          p = primitive_offset prim (trial_pose g i)
      in if 0 < approach_z (rt_rotation p)
         then Inr (False, st1\<lparr>grasp_pose := Some (Target p)\<rparr>)
         else
           (let target = recentre inside lerf_points_o3d p;
                st2 = emit [Print ''Center Point''] (st1\<lparr>grasp_pose := Some target\<rparr>);
                st3 = emit [Plan ind (Create_traj_from_grasp target)] st2
            in case create_traj_from_grasp P (events st2) target of
                 (tr, succ, fin_pose) \<Rightarrow>
                   if \<not> succ then Inr (False, emit [Print '' - Failed''] st3)
                   else
                     (case last_row tr of
                        Inl e \<Rightarrow> Inl (e, events st3)
                      | Inr q \<Rightarrow>
                          (case create_traj_lift_up P (events st3) q fin_pose (2 / 10) of
                             (traj_up, succ_up) \<Rightarrow>
                               (let st4 = emit [Plan ind (Create_traj_lift_up q fin_pose (2 / 10))] st3
                                in if succ \<and> succ_up
                                   then
                                     (let st5 = (emit [Print '' - Success''] st4)
                                            \<lparr>succ_traj_list := succ_traj_list st4 @ [(tr, fin_pose)]\<rparr>
                                      in if i = 0
                                         then Inr (True, emit [Print '' - calculated w/o rotation''] st5)
                                         else Inr (False, st5))
                                   else Inr (False, emit [Print '' - Failed''] st4))))))"

text \<open>The loop over the rotation trials.\<close>

fun rotation_loop ::
  "planner \<Rightarrow> primitive \<Rightarrow> (obb \<Rightarrow> vec3 \<Rightarrow> bool) \<Rightarrow> vec3 list \<Rightarrow> grasp \<Rightarrow> nat \<Rightarrow> nat list
     \<Rightarrow> synth_state \<Rightarrow> synth_state outcome" where
  "rotation_loop P prim inside lp g ind [] st = Inr st"
| "rotation_loop P prim inside lp g ind (i # is) st =
     (case rotation_trial P prim inside lp g ind i st of
        Inl e \<Rightarrow> Inl e
      | Inr (stop, st') \<Rightarrow>
          if stop then Inr st' else rotation_loop P prim inside lp g ind is st')"

text \<open>The single attempt of the twist and pour primitives (lines 998-1017 and
  1037-1057, the same code after the pose is built): no test of the approach axis and
  no lift.\<close>

definition single_attempt ::
  "planner \<Rightarrow> (obb \<Rightarrow> vec3 \<Rightarrow> bool) \<Rightarrow> vec3 list \<Rightarrow> rigid_transform \<Rightarrow> nat
     \<Rightarrow> synth_state \<Rightarrow> synth_state outcome" where
  "single_attempt P inside lerf_points_o3d p ind st =
     (let target = recentre inside lerf_points_o3d p;
          st1 = emit [Print ''Center Point''] (st\<lparr>grasp_pose := Some target\<rparr>);
          st2 = emit [Plan ind (Create_traj_from_grasp target)] st1
      in case create_traj_from_grasp P (events st1) target of
           (tr, succ, fin_pose) \<Rightarrow>
             if \<not> succ then Inr (emit [Print '' - Failed''] st2)
             else Inr (st2\<lparr>succ_traj_list := succ_traj_list st2 @ [(tr, fin_pose)]\<rparr>))"

text \<open>The attempts made for one candidate, by primitive (lines 894-1057).\<close>

definition try_candidate ::
  "planner \<Rightarrow> primitive \<Rightarrow> (obb \<Rightarrow> vec3 \<Rightarrow> bool) \<Rightarrow> vec3 list \<Rightarrow> grasp \<Rightarrow> nat
     \<Rightarrow> synth_state \<Rightarrow> synth_state outcome" where
  "try_candidate P prim inside lp g ind st =
     (case prim of
        Twist \<Rightarrow> single_attempt P inside lp (twist_pose g) ind st
      | Pour \<Rightarrow> single_attempt P inside lp (pour_pose g) ind st
      | _ \<Rightarrow> rotation_loop P prim inside lp g ind [0..<num_rotations_test] st)"



section \<open>Composing the stages (lines 1083-1158)\<close>




text \<open>What the handler leaves behind: the trajectory \<^verbatim>\<open>traj\<close> (\<open>None\<close> for \<^verbatim>\<open>None\<close>), the
  value it sets the slider to, and the trace of the run.\<close>

record gen_traj_result =
  final_traj :: "trajectory option"
  slider_value :: real
  trace :: "event list"





section \<open>The handler of the trajectory button (lines 871-1181)\<close>






section \<open>Reading a trace\<close>

text \<open>The trace an outcome carries.\<close>

definition outcome_events :: "synth_state outcome \<Rightarrow> event list" where
  "outcome_events r = (case r of Inl (e, evs) \<Rightarrow> evs | Inr st \<Rightarrow> events st)"




text \<open>A planner call for an approach to a pose whose approach axis points upward, and
  the message that reports a failed attempt.\<close>

fun upward_call :: "event \<Rightarrow> bool" where
  "upward_call (Plan ind (Create_traj_from_grasp t)) = (0 < target_approach_z t)"
| "upward_call ev = False"



section \<open>Properties of the scoring loop\<close>

lemma score_loop_geom:
  "score_loop inside lp lr dp gs (ls, qs) = Inr (ls', qs')
   \<Longrightarrow> qs' = qs @ map (geom_score_of inside dp) gs"
proof (induction gs arbitrary: ls qs)
  case Nil
  then show ?case by simp
next
  case (Cons g gs)
  from Cons.prems obtain s where
    step: "score_loop inside lp lr dp gs (ls @ [s], qs @ [geom_score_of inside dp g])
             = Inr (ls', qs')"
    by (auto split: sum.splits)
  from Cons.IH [OF step] show ?case by simp
qed

text \<open>
  C10. During scoring, the geometric score of candidate \<open>i\<close> is 0.0 when no point of
  the DINO cloud lies inside the candidate's box, whatever score the detector gave it,
  and is the detector's score unchanged otherwise.
\<close>

theorem geom_score_zeroed_without_dino_points:
  assumes "gen_grasp_scores inside lp lr dp grasps = Inr (lerf_scores, geom_scores)"
  shows "geom_scores =
    map (\<lambda>g. if get_point_indices_within_bounding_box inside (get_bbox_from_grasp g) dp = []
             then 0 else score g) grasps"
proof -
  from assms obtain ls where
    "score_loop inside lp lr dp grasps ([], []) = Inr (ls, geom_scores)"
    by (auto simp: gen_grasp_scores_def split: sum.splits prod.splits)
  then have "geom_scores = map (geom_score_of inside dp) grasps"
    using score_loop_geom by fastforce
  then show ?thesis by (simp add: geom_score_of_def Let_def)
qed

lemma scores_one_candidate_no_dino:
  "gen_grasp_scores point_within_box [(0, 0, 0)] [1] [(5, 5, 5)] [unit_grasp (4 / 5) (0, 0, 0)]
     = Inr ([Finite 1], [0])"
  by (simp add: gen_grasp_scores_def lerf_score_of_def geom_score_of_def
      normalize_lerf_scores_def np_divide_def np_median_def
      get_point_indices_within_bounding_box_def get_bbox_from_grasp_def unit_grasp_def)

theorem geom_score_zeroed_without_dino_points_witness:
  "gen_grasp_scores point_within_box [(0, 0, 0)] [1] [(5, 5, 5)] [unit_grasp (4 / 5) (0, 0, 0)]
     = Inr ([Finite 1], [0])
   \<and> [0] =
     map (\<lambda>g. if get_point_indices_within_bounding_box point_within_box
                    (get_bbox_from_grasp g) [(5, 5, 5)] = []
              then 0 else score g) [unit_grasp (4 / 5) (0, 0, 0)]"
  by (rule conjI [OF scores_one_candidate_no_dino
        geom_score_zeroed_without_dino_points [OF scores_one_candidate_no_dino]])

section \<open>Normalisation of the semantic scores\<close>

lemma np_max_eq_Max: "xs \<noteq> [] \<Longrightarrow> np_max xs = Inr (Max (set xs))"
  by (cases xs) (simp_all add: Max.set_eq_fold [symmetric])

lemma np_take_subset: "np_take a is = Inr vs \<Longrightarrow> set vs \<subseteq> set a \<and> length vs = length is"
proof (induction "is" arbitrary: vs)
  case Nil
  then show ?case by simp
next
  case (Cons i "is")
  then show ?case by (auto split: if_splits sum.splits)
qed

lemma np_median_bounds:
  assumes "vs \<noteq> []" and "\<forall>v \<in> set vs. lo \<le> v \<and> v \<le> hi"
  shows "lo \<le> np_median vs \<and> np_median vs \<le> hi"
proof -
  let ?s = "sort vs" and ?n = "length vs"
  have n: "0 < ?n" using assms(1) by simp
  have mem: "\<And>k. k < ?n \<Longrightarrow> lo \<le> ?s ! k \<and> ?s ! k \<le> hi"
  proof -
    fix k assume "k < ?n"
    then have "k < length ?s" by simp
    then have "?s ! k \<in> set ?s" by (rule nth_mem)
    then show "lo \<le> ?s ! k \<and> ?s ! k \<le> hi" using assms(2) by simp
  qed
  have a: "?n div 2 < ?n" using n by simp
  have b: "?n div 2 - 1 < ?n" using n by arith
  from mem [OF a] mem [OF b] show ?thesis
    by (auto simp: np_median_def Let_def)
qed

lemma lerf_score_of_bounds:
  assumes "lerf_score_of inside lp lr g = Inr s" and "\<forall>r \<in> set lr. 0 \<le> r \<and> r \<le> m"
    and "0 \<le> m"
  shows "0 \<le> s \<and> s \<le> m"
proof (cases "get_point_indices_within_bounding_box inside (get_bbox_from_grasp g) lp = []")
  case True
  with assms show ?thesis by (simp add: lerf_score_of_def)
next
  case False
  with assms(1) obtain vs where
    t: "np_take lr (get_point_indices_within_bounding_box inside (get_bbox_from_grasp g) lp)
          = Inr vs"
    and s: "s = np_median vs"
    by (auto simp: lerf_score_of_def Let_def split: sum.splits)
  from np_take_subset [OF t] False have "vs \<noteq> []" "set vs \<subseteq> set lr" by auto
  with assms(2) np_median_bounds [of vs 0 m] s show ?thesis by blast
qed

lemma score_loop_lerf_bounds:
  assumes "score_loop inside lp lr dp gs (ls, qs) = Inr (ls', qs')"
    and "\<forall>r \<in> set lr. 0 \<le> r \<and> r \<le> m" and "0 \<le> m"
    and "\<forall>s \<in> set ls. 0 \<le> s \<and> s \<le> m"
  shows "\<forall>s \<in> set ls'. 0 \<le> s \<and> s \<le> m"
  using assms
proof (induction gs arbitrary: ls qs)
  case Nil
  then show ?case by simp
next
  case (Cons g gs)
  from Cons.prems(1) obtain s where
    sc: "lerf_score_of inside lp lr g = Inr s" and
    step: "score_loop inside lp lr dp gs (ls @ [s], qs @ [geom_score_of inside dp g])
             = Inr (ls', qs')"
    by (auto split: sum.splits)
  from lerf_score_of_bounds [OF sc Cons.prems(2,3)] Cons.prems(4)
  have "\<forall>t \<in> set (ls @ [s]). 0 \<le> t \<and> t \<le> m" by auto
  from Cons.IH [OF step Cons.prems(2,3) this] show ?case .
qed

lemma raw_scores_one_candidate:
  "score_loop point_within_box [(0, 0, 0), (5, 5, 5)] [2, 10] []
      [unit_grasp (4 / 5) (0, 0, 0)] ([], [])
     = Inr ([2], [0])"
  by (simp add: lerf_score_of_def geom_score_of_def np_median_def
      get_point_indices_within_bounding_box_def get_bbox_from_grasp_def unit_grasp_def)

text \<open>
  C5 as stated fails. One candidate whose box holds a single LERF point of relevancy 2,
  in a field whose largest relevancy is 10 (at a point outside every box): the
  candidate's semantic score 2 is nonzero and is the maximum of the score array, yet
  the normalised array is [0.2] and no candidate attains 1.
\<close>

theorem normalize_by_own_max_counterexample:
  "score_loop point_within_box [(0, 0, 0), (5, 5, 5)] [2, 10] []
      [unit_grasp (4 / 5) (0, 0, 0)] ([], [])
     = Inr ([2], [0])
   \<and> np_max [2] = Inr 2
   \<and> gen_grasp_scores point_within_box [(0, 0, 0), (5, 5, 5)] [2, 10] []
      [unit_grasp (4 / 5) (0, 0, 0)]
     = Inr ([Finite (1 / 5)], [0])
   \<and> Finite 1 \<notin> set [Finite (1 / 5)]"
  using raw_scores_one_candidate
  by (simp add: gen_grasp_scores_def normalize_lerf_scores_def np_divide_def)

text \<open>
  C5, amended. After the per-candidate semantic scores \<open>raw\<close> are computed, the
  handler divides the whole array by the maximum of the relevancy field
  (\<^verbatim>\<open>lerf_relevancy.max()\<close>, over all points, not the score array's own maximum). When
  the relevancies are non-negative and one of them is positive, every normalised score
  is finite and lies in [0,1]; no candidate need attain 1.
\<close>

theorem lerf_scores_divided_by_relevancy_max:
  assumes run: "score_loop inside lp lr dp grasps ([], []) = Inr (raw, geom_scores)"
    and nonneg: "\<forall>r \<in> set lr. 0 \<le> r"
    and pos: "\<exists>r \<in> set lr. 0 < r"
  shows "gen_grasp_scores inside lp lr dp grasps
           = Inr (map (\<lambda>s. Finite (s / Max (set lr))) raw, geom_scores)
       \<and> list_all (\<lambda>s. 0 \<le> s / Max (set lr) \<and> s / Max (set lr) \<le> 1) raw"
proof -
  let ?m = "Max (set lr)"
  from pos have ne: "lr \<noteq> []" by auto
  from pos have mpos: "0 < ?m" by (meson List.finite_set Max_gr_iff empty_iff ne set_empty)
  have le: "\<forall>r \<in> set lr. 0 \<le> r \<and> r \<le> ?m" using nonneg by simp
  from score_loop_lerf_bounds [OF run le] mpos
  have rawb: "\<forall>s \<in> set raw. 0 \<le> s \<and> s \<le> ?m" by simp
  have "normalize_lerf_scores raw lr = Inr (map (\<lambda>s. Finite (s / ?m)) raw)"
    using mpos by (simp add: normalize_lerf_scores_def np_max_eq_Max [OF ne] np_divide_def)
  then have 1: "gen_grasp_scores inside lp lr dp grasps
           = Inr (map (\<lambda>s. Finite (s / ?m)) raw, geom_scores)"
    using run by (simp add: gen_grasp_scores_def)
  have 2: "\<forall>s \<in> set raw. 0 \<le> s / ?m \<and> s / ?m \<le> 1"
    using rawb mpos by (simp add: divide_le_eq)
  from 1 2 show ?thesis by (simp add: list_all_iff)
qed

theorem lerf_scores_divided_by_relevancy_max_witness:
  "gen_grasp_scores point_within_box [(0, 0, 0), (5, 5, 5)] [2, 10] []
      [unit_grasp (4 / 5) (0, 0, 0)]
     = Inr (map (\<lambda>s. Finite (s / Max (set [2, 10]))) [2], [0])
   \<and> list_all (\<lambda>s. 0 \<le> s / Max (set [2, 10]) \<and> s / Max (set [2, 10]) \<le> 1) [2 :: real]"
  by (rule lerf_scores_divided_by_relevancy_max [OF raw_scores_one_candidate]) simp_all

section \<open>Fusion of the two scores\<close>

lemma map2_weighted:
  "length a = length b \<Longrightarrow>
   map2 (+) (map (\<lambda>x. w * x) a) (map (\<lambda>x. v * x) b) = map2 (\<lambda>s g. w * s + v * g) a b"
  by (induction a b rule: list_induct2) simp_all

lemma map2_fst_only: "length a = length b \<Longrightarrow> map2 (\<lambda>s g. s) a b = a"
  by (induction a b rule: list_induct2) simp_all

lemma map2_snd_only: "length a = length b \<Longrightarrow> map2 (\<lambda>s g. g) a b = b"
  by (induction a b rule: list_induct2) simp_all

text \<open>
  C9. For semantic and geometric score arrays of the same candidates (hence of the same
  length), the fused score of each candidate is weight * semantic + (1 - weight) *
  geometric. So with weight 1 the ranking of the fused scores
  (\<^verbatim>\<open>np.argsort(scores)[::-1]\<close>) is the ranking of the semantic scores, and with weight
  0 it is the ranking of the geometric scores.
\<close>

theorem fused_is_weighted_sum:
  assumes len: "length lerf_scores = length geom_scores"
  shows "fuse_scores w lerf_scores geom_scores
           = Inr (map2 (\<lambda>s g. w * s + (1 - w) * g) lerf_scores geom_scores)
       \<and> map_sum id argsort_desc (fuse_scores 1 lerf_scores geom_scores)
           = Inr (argsort_desc lerf_scores)
       \<and> map_sum id argsort_desc (fuse_scores 0 lerf_scores geom_scores)
           = Inr (argsort_desc geom_scores)"
proof -
  have gen: "fuse_scores w lerf_scores geom_scores
           = Inr (map2 (\<lambda>s g. w * s + (1 - w) * g) lerf_scores geom_scores)" for w
  proof (cases "lerf_scores = []")
    case True
    with len show ?thesis by (simp add: fuse_scores_def)
  next
    case ne: False
    show ?thesis
    proof (cases "w = 1")
      case True
      with ne len show ?thesis by (auto simp: fuse_scores_def map2_fst_only)
    next
      case False
      with ne len show ?thesis
        by (auto simp: fuse_scores_def np_add_def np_scale_def map2_weighted)
    qed
  qed
  have one: "fuse_scores 1 lerf_scores geom_scores = Inr lerf_scores"
    using gen [of 1] len by (simp add: map2_fst_only)
  have zero: "fuse_scores 0 lerf_scores geom_scores = Inr geom_scores"
    using gen [of 0] len by (simp add: map2_snd_only)
  show ?thesis using gen [of w] one zero by simp
qed

theorem fused_is_weighted_sum_witness:
  "fuse_scores (1 / 2) [1, 0] [0, 1]
     = Inr (map2 (\<lambda>s g. (1 / 2) * s + (1 - 1 / 2) * g) [1, 0] [0, 1])
   \<and> map_sum id argsort_desc (fuse_scores 1 [1, 0] [0, 1]) = Inr (argsort_desc [1, 0])
   \<and> map_sum id argsort_desc (fuse_scores 0 [1, 0] [0, 1]) = Inr (argsort_desc [0, 1])"
  by (rule fused_is_weighted_sum) simp

section \<open>Selection above the quantile\<close>

lemma sort_by_score_mset: "mset (sort_by_score gg) = mset gg"
  by (simp add: sort_by_score_def)

lemma sort_by_score_sorted: "sorted (rev (map score (sort_by_score gg)))"
  by (simp add: sort_by_score_def rev_map)

lemma select_three_candidates:
  "select_by_quantile
     [unit_grasp (9 / 10) (0, 0, 0), unit_grasp (1 / 10) (1, 0, 0), unit_grasp (1 / 2) (2, 0, 0)]
     [1, 3, 2] 0
   = Inr ([1, 2], [unit_grasp (1 / 2) (2, 0, 0), unit_grasp (1 / 10) (1, 0, 0)])"
  by (simp add: select_by_quantile_def np_quantile_def select_grasps_def sort_by_score_def
      unit_grasp_def upt_rec)

text \<open>
  C2 as stated fails in its ordering part. Three candidates with detector scores 0.9,
  0.1, 0.5 and fused scores 1, 3, 2, quantile 0: the threshold is 1, candidates 1 and 2
  are selected, and the selection is returned as candidate 2 (fused 2) before candidate 1
  (fused 3): descending by detector score, ascending by fused score.
\<close>

theorem selection_order_counterexample:
  "select_by_quantile
     [unit_grasp (9 / 10) (0, 0, 0), unit_grasp (1 / 10) (1, 0, 0), unit_grasp (1 / 2) (2, 0, 0)]
     [1, 3, 2] 0
   = Inr ([1, 2],
       [[unit_grasp (9 / 10) (0, 0, 0), unit_grasp (1 / 10) (1, 0, 0),
         unit_grasp (1 / 2) (2, 0, 0)] ! 2,
        [unit_grasp (9 / 10) (0, 0, 0), unit_grasp (1 / 10) (1, 0, 0),
         unit_grasp (1 / 2) (2, 0, 0)] ! 1])
   \<and> [1, 3, 2 :: real] ! 2 < [1, 3, 2] ! 1"
  using select_three_candidates by simp

text \<open>
  C2, amended. Whenever the selection step returns, the selected indices are exactly
  those of the candidates whose fused score is strictly greater than the quantile of the
  fused scores, the returned candidates are exactly the candidates at those indices
  (as a multiset), and they are ordered descending by their own detector score
  (\<^verbatim>\<open>sort_by_score\<close> reads the grasp's \<^verbatim>\<open>score\<close> field, which never holds the fused
  score).
\<close>

theorem selection_sorted_by_detector_score:
  assumes "select_by_quantile grasps scores q = Inr (inds_selected, grasps_selected)"
  shows "\<exists>thr. np_quantile scores q = Inr thr
      \<and> inds_selected = filter (\<lambda>ind. thr < scores ! ind) [0..<length grasps]
      \<and> mset grasps_selected = mset (map (\<lambda>ind. grasps ! ind) inds_selected)
      \<and> sorted (rev (map score grasps_selected))"
proof -
  from assms obtain thr where
    q: "np_quantile scores q = Inr thr" and
    s: "select_grasps grasps scores thr = Inr (inds_selected, grasps_selected)"
    by (auto simp: select_by_quantile_def split: sum.splits)
  from s have i: "inds_selected = filter (\<lambda>ind. thr < scores ! ind) [0..<length grasps]"
    and g: "grasps_selected = sort_by_score (map (\<lambda>ind. grasps ! ind) inds_selected)"
    by (auto simp: select_grasps_def Let_def split: if_splits)
  from q i g show ?thesis
    by (simp add: sort_by_score_mset sort_by_score_sorted)
qed

theorem selection_sorted_by_detector_score_witness:
  "\<exists>thr. np_quantile [1, 3, 2] 0 = Inr thr
      \<and> [1, 2] = filter (\<lambda>ind. thr < [1, 3, 2] ! ind)
          [0..<length [unit_grasp (9 / 10) (0, 0, 0), unit_grasp (1 / 10) (1, 0, 0),
                       unit_grasp (1 / 2) (2, 0, 0)]]
      \<and> mset [unit_grasp (1 / 2) (2, 0, 0), unit_grasp (1 / 10) (1, 0, 0)]
          = mset (map (\<lambda>ind. [unit_grasp (9 / 10) (0, 0, 0), unit_grasp (1 / 10) (1, 0, 0),
                               unit_grasp (1 / 2) (2, 0, 0)] ! ind) [1, 2])
      \<and> sorted (rev (map score [unit_grasp (1 / 2) (2, 0, 0), unit_grasp (1 / 10) (1, 0, 0)]))"
  by (rule selection_sorted_by_detector_score [OF select_three_candidates])

section \<open>Rescaling the scores over the selection\<close>

lemma np_take_valid:
  "\<forall>i \<in> set inds. i < length a \<Longrightarrow> np_take a inds = Inr (map (\<lambda>i. a ! i) inds)"
  by (induction inds) simp_all

lemma fold_min_const: "\<forall>y \<in> set xs. y = v \<Longrightarrow> fold min xs v = (v :: real)"
  by (induction xs) simp_all

lemma fold_max_const: "\<forall>y \<in> set xs. y = v \<Longrightarrow> fold max xs v = (v :: real)"
  by (induction xs) simp_all

lemma np_min_const: "xs \<noteq> [] \<Longrightarrow> \<forall>y \<in> set xs. y = v \<Longrightarrow> np_min xs = Inr v"
  by (cases xs) (simp_all add: fold_min_const)

lemma np_max_const: "xs \<noteq> [] \<Longrightarrow> \<forall>y \<in> set xs. y = v \<Longrightarrow> np_max xs = Inr v"
  by (cases xs) (simp_all add: fold_max_const)

text \<open>
  When all selected scores share one value \<open>v\<close>, the subtraction leaves 0 at every
  selected index, the maximum read afterwards is 0, and every score is divided by 0.
\<close>

lemma rescale_degenerate:
  assumes ne: "inds \<noteq> []" and eq: "\<forall>i \<in> set inds. i < length scores \<and> scores ! i = v"
  shows "rescale_scores scores inds = Inr (map (\<lambda>s. np_divide (s - v) 0) scores)"
proof -
  let ?scores1 = "map (\<lambda>s. s - v) scores"
  have t: "np_take scores inds = Inr (map (\<lambda>i. scores ! i) inds)"
    using eq by (simp add: np_take_valid)
  have mn: "np_min (map (\<lambda>i. scores ! i) inds) = Inr v"
    using ne eq by (simp add: np_min_const)
  have t1: "np_take ?scores1 inds = Inr (map (\<lambda>i. ?scores1 ! i) inds)"
    using eq by (simp add: np_take_valid)
  have mx: "np_max (map (\<lambda>i. ?scores1 ! i) inds) = Inr 0"
    using ne eq by (simp add: np_max_const)
  show ?thesis
    by (simp add: rescale_scores_def t mn t1 mx)
qed

lemma rescale_degenerate_nan:
  assumes ne: "inds \<noteq> []" and eq: "\<forall>i \<in> set inds. i < length scores \<and> scores ! i = v"
  shows "\<exists>out. rescale_scores scores inds = Inr out \<and> (\<forall>i \<in> set inds. out ! i = NaN)"
  using rescale_degenerate [OF ne eq] eq by (simp add: np_divide_def)

text \<open>
  C1. The claim asks that a selection whose fused scores all share one value be rescaled
  to the constant 1.0, with no non-finite value. The handler at four candidates with
  semantic and geometric scores 0, 0, 0, 1, weight 0.5 and quantile 0.5: the fused scores
  are 0, 0, 0, 1, the threshold is 0, candidate 3 alone is selected (minimum = maximum =
  1), and the rescaled scores are -inf, -inf, -inf, nan; the value handed to
  \<^verbatim>\<open>add_grasps\<close> for the selected candidate is nan, not 1.0.
\<close>

theorem rescale_single_selection_is_nan:
  "update_overall_scores (1 / 2) (1 / 2)
     [unit_grasp (9 / 10) (0, 0, 0), unit_grasp (1 / 10) (1, 0, 0), unit_grasp (1 / 2) (2, 0, 0),
      unit_grasp (7 / 10) (3, 0, 0)]
     [0, 0, 0, 1] [0, 0, 0, 1]
   = Inr (Some \<lparr>overall_scores = [NegInf, NegInf, NegInf, NaN],
                grasps_dict = [(3, unit_grasp (7 / 10) (3, 0, 0))]\<rparr>)"
  by (simp add: update_overall_scores_def fuse_scores_def np_add_def np_scale_def
      select_by_quantile_def np_quantile_def select_grasps_def sort_by_score_def
      rescale_scores_def np_divide_def upt_rec)

section \<open>Sampling the trajectory\<close>

lemma py_index_nat: "k < length xs \<Longrightarrow> py_index xs (int k) = Inr (xs ! k)"
  by (simp add: py_index_def)

text \<open>
  C8 as stated fails: the handler truncates where the claim rounds. On a trajectory of
  four configurations at slider value 0.5 the product 0.5 * 3 = 1.5 is exact in double
  precision; the handler shows the configuration at index 1, the configuration at index
  round(1.5) = 2 is another one.
\<close>

theorem sample_rounding_counterexample:
  "gen_traj_slider_on_update (\<lambda>x y. x * y) (Some [[0], [1], [2], [3]]) (1 / 2) = Inr (Some [1])
   \<and> [[0], [1], [2], [3 :: real]] ! nat (round ((1 / 2 :: real) * (4 - 1))) = [2]"
  by (simp add: gen_traj_slider_on_update_def py_index_def py_int_def round_def)

text \<open>
  C8, amended. For every non-empty trajectory of length L and every slider value t in
  [0,1], the handler shows the configuration at index floor(p), where p is the
  double-precision product of t and L - 1 that line 1190 computes: the position is
  truncated, not rounded, and it is the rounded product that is truncated, not the exact
  one. What is used of double-precision multiplication is that the product of a factor in
  [0,1] with L - 1 lies in [0, L - 1], is 0 for the factor 0 and L - 1 for the factor 1.
  At t = 0 the configuration shown is the first and at t = 1 the last.
\<close>

theorem sample_truncates:
  assumes ne: "traj \<noteq> []" and t0: "0 \<le> t" and t1: "t \<le> 1"
    and bounds: "\<And>u. 0 \<le> u \<Longrightarrow> u \<le> 1 \<Longrightarrow>
                   0 \<le> float_mul u (real (length traj - 1))
                   \<and> float_mul u (real (length traj - 1)) \<le> real (length traj - 1)"
    and zero: "float_mul 0 (real (length traj - 1)) = 0"
    and one: "float_mul 1 (real (length traj - 1)) = real (length traj - 1)"
  shows "gen_traj_slider_on_update float_mul (Some traj) t
           = Inr (Some (traj ! nat \<lfloor>float_mul t (real (length traj - 1))\<rfloor>))
       \<and> gen_traj_slider_on_update float_mul (Some traj) 0 = Inr (Some (hd traj))
       \<and> gen_traj_slider_on_update float_mul (Some traj) 1 = Inr (Some (last traj))"
proof -
  let ?n = "length traj"
  have n1: "1 \<le> ?n" using ne by (cases traj) simp_all
  then have "real (?n - 1) = real ?n - 1" by (simp add: of_nat_diff)
  then have cast: "real_of_int (int ?n - 1) = real (?n - 1)" by simp
  have gen: "gen_traj_slider_on_update float_mul (Some traj) u
           = Inr (Some (traj ! nat \<lfloor>float_mul u (real (?n - 1))\<rfloor>))"
    if u0: "0 \<le> u" and u1: "u \<le> 1" for u
  proof -
    let ?x = "float_mul u (real (?n - 1))"
    from bounds [OF u0 u1] have x0: "0 \<le> ?x" and xn: "?x \<le> real (?n - 1)" by simp_all
    from xn have "\<lfloor>?x\<rfloor> \<le> int (?n - 1)" by (simp add: floor_le_iff)
    then have lt: "nat \<lfloor>?x\<rfloor> < ?n" using n1 by linarith
    have f0: "0 \<le> \<lfloor>?x\<rfloor>" using x0 by simp
    have "py_int ?x = int (nat \<lfloor>?x\<rfloor>)" using x0 f0 by (simp add: py_int_def)
    then have idx: "py_int (float_mul u (real_of_int (int ?n - 1))) = int (nat \<lfloor>?x\<rfloor>)"
      by (simp only: cast)
    show ?thesis
      unfolding gen_traj_slider_on_update_def
      by (simp only: option.case idx py_index_nat [OF lt] sum.case)
  qed
  have z: "gen_traj_slider_on_update float_mul (Some traj) 0 = Inr (Some (hd traj))"
    using gen [of 0] ne zero by (simp add: hd_conv_nth)
  have o: "gen_traj_slider_on_update float_mul (Some traj) 1 = Inr (Some (last traj))"
    using gen [of 1] ne one by (simp add: last_conv_nth)
  from gen [OF t0 t1] z o show ?thesis by simp
qed

theorem sample_truncates_witness:
  "gen_traj_slider_on_update (\<lambda>x y. x * y) (Some [[0], [1], [2], [3]]) (1 / 2)
     = Inr (Some ([[0], [1], [2], [3]]
         ! nat \<lfloor>(\<lambda>x y. x * y) (1 / 2) (real (length [[0], [1], [2], [3 :: real]] - 1))\<rfloor>))
   \<and> gen_traj_slider_on_update (\<lambda>x y. x * y) (Some [[0], [1], [2], [3]]) 0
     = Inr (Some (hd [[0], [1], [2], [3]]))
   \<and> gen_traj_slider_on_update (\<lambda>x y. x * y) (Some [[0], [1], [2], [3]]) 1
     = Inr (Some (last [[0], [1], [2], [3]]))"
proof (rule sample_truncates)
  fix u :: real
  assume "0 \<le> u" and "u \<le> 1"
  then show "0 \<le> u * real (length [[0], [1], [2], [3 :: real]] - 1)
           \<and> u * real (length [[0], [1], [2], [3 :: real]] - 1)
               \<le> real (length [[0], [1], [2], [3 :: real]] - 1)"
    by simp
qed simp_all

section \<open>The best recorded result\<close>







section \<open>The runs of the trajectory handler\<close>






section \<open>No planner call for an upward approach\<close>

text \<open>The guard of line 948: a trial whose pose has an upward approach axis announces
  itself and does nothing else.\<close>

lemma rotation_trial_skips_upward:
  "0 < approach_z (rt_rotation (primitive_offset prim (trial_pose g i)))
   \<Longrightarrow> rotation_trial P prim inside lp g ind i st
       = Inr (False, (emit [Print ''Trying rotation''] st)
           \<lparr>grasp_pose := Some (Target (primitive_offset prim (trial_pose g i)))\<rparr>)"
  by (simp add: rotation_trial_def Let_def)

lemma mat_mul_identity_left [simp]: "mat_mul identity_rotation m = m"
  by (simp add: mat_mul_def identity_rotation_def split: prod.splits)

lemma mat_mul_identity_right [simp]: "mat_mul m identity_rotation = m"
  by (simp add: mat_mul_def identity_rotation_def split: prod.splits)

text \<open>Re-centring leaves the approach axis as it is, also when it leaves nan behind.\<close>

lemma recentre_approach [simp]:
  "target_approach_z (recentre inside lp p) = approach_z (rt_rotation p)"
  by (simp add: recentre_def Let_def rt_mul_def pure_translation_def target_approach_z_def
      approach_z_def split: option.splits prod.splits)

lemma twist_pose_approach: "approach_z (rt_rotation (twist_pose g)) = - 1"
  by (simp add: twist_pose_def rt_mul_def pure_translation_def approach_z_def)

lemma pour_pose_approach: "approach_z (rt_rotation (pour_pose g)) = 0"
  by (simp add: pour_pose_def rt_mul_def pure_translation_def approach_z_def Let_def
      split: prod.splits)

text \<open>The attempts made for one candidate never plan an approach to an upward pose:
  the rotation trials test the approach axis first, the twist and pour poses have fixed
  rotations whose approach axes point down and sideways.\<close>

lemma rotation_trial_no_upward:
  assumes "\<not> list_ex upward_call (events st)"
  shows "\<not> list_ex upward_call
           (case rotation_trial P prim inside lp g ind i st of
              Inl (e, evs) \<Rightarrow> evs | Inr (stop, st') \<Rightarrow> events st')"
  using assms
  by (auto simp: rotation_trial_def emit_def Let_def split: prod.splits sum.splits if_splits)

lemma rotation_loop_no_upward:
  assumes "\<not> list_ex upward_call (events st)"
  shows "\<not> list_ex upward_call (outcome_events (rotation_loop P prim inside lp g ind is st))"
  using assms
proof (induction "is" arbitrary: st)
  case Nil
  then show ?case by (simp add: outcome_events_def)
next
  case (Cons i "is")
  show ?case
  proof (cases "rotation_trial P prim inside lp g ind i st")
    case (Inl err)
    with rotation_trial_no_upward [OF Cons.prems, of P prim inside lp g ind i] show ?thesis
      by (cases err) (simp add: outcome_events_def)
  next
    case (Inr res)
    obtain stop st' where res: "res = (stop, st')" by (cases res)
    from rotation_trial_no_upward [OF Cons.prems, of P prim inside lp g ind i] Inr res
    have step: "\<not> list_ex upward_call (events st')" by simp
    show ?thesis
    proof (cases stop)
      case True
      with Inr res step show ?thesis by (simp add: outcome_events_def)
    next
      case False
      with Inr res Cons.IH [OF step] show ?thesis by simp
    qed
  qed
qed

lemma single_attempt_no_upward:
  assumes "\<not> list_ex upward_call (events st)" and "\<not> 0 < approach_z (rt_rotation p)"
  shows "\<not> list_ex upward_call (outcome_events (single_attempt P inside lp p ind st))"
  using assms
  by (auto simp: single_attempt_def outcome_events_def emit_def Let_def
      split: prod.splits if_splits)

lemma try_candidate_no_upward:
  assumes "\<not> list_ex upward_call (events st)"
  shows "\<not> list_ex upward_call (outcome_events (try_candidate P prim inside lp g ind st))"
proof (cases prim)
  case Twist
  with single_attempt_no_upward [OF assms, of "twist_pose g"] show ?thesis
    by (simp add: try_candidate_def twist_pose_approach)
next
  case Pour
  with single_attempt_no_upward [OF assms, of "pour_pose g"] show ?thesis
    by (simp add: try_candidate_def pour_pose_approach)
next
  case Grasp_primitive
  with rotation_loop_no_upward [OF assms] show ?thesis by (simp add: try_candidate_def)
next
  case Pick_and_place
  with rotation_loop_no_upward [OF assms] show ?thesis by (simp add: try_candidate_def)
qed


end
